theory Spec2Isabelle
  imports Main "HOL-Library.Sublist"
begin

section \<open>Values of the request bodies\<close>

text \<open>
  The handlers of \<^verbatim>\<open>wa_http_server.js\<close> read fields of \<^verbatim>\<open>req.body\<close>, the value
  \<^verbatim>\<open>express.json\<close> parsed. A field can hold any JSON value, and a field that is absent
  reads as \<^verbatim>\<open>undefined\<close>. Strings are byte strings (UTF-8): the digits are the same
  bytes in every encoding the handlers meet, and a string is empty in one exactly when it
  is empty in the other. A number is held as the text \<^verbatim>\<open>String(n)\<close> gives for it, which
  is all the handlers ever use of a number (the number-to-text algorithm itself works on
  floating point and is not part of the model). An object is its list of members in the
  order of the JSON text; a later member of the same name replaces an earlier one.
\<close>

datatype jsval =
    JUndefined
  | JNull
  | JBool bool
  | JNum string
  | JStr string
  | JArr "jsval list"
  | JObj "(string \<times> jsval) list"

text \<open>
  What a handler can throw: a \<^verbatim>\<open>TypeError\<close> of the language (reading a property of
  \<^verbatim>\<open>null\<close> or \<^verbatim>\<open>undefined\<close>, converting an object that has no usable
  \<^verbatim>\<open>toString\<close>), or the rejection of \<^verbatim>\<open>client.sendMessage\<close>, held as the text
  \<^verbatim>\<open>e?.message || String(e)\<close> computes from it.
\<close>

datatype thrown = TypeError | Rejected string

text \<open>JavaScript truthiness: \<^verbatim>\<open>!raw\<close> is \<open>\<not> truthy raw\<close>.\<close>

fun truthy :: "jsval \<Rightarrow> bool" where
  "truthy JUndefined = False"
| "truthy JNull = False"
| "truthy (JBool b) = b"
| "truthy (JNum s) = (s \<noteq> ''0'' \<and> s \<noteq> ''NaN'')"
| "truthy (JStr s) = (s \<noteq> [])"
| "truthy (JArr xs) = True"
| "truthy (JObj kvs) = True"

text \<open>\<^verbatim>\<open>Array.prototype.join\<close> on the converted elements.\<close>

fun join_with :: "string \<Rightarrow> string list \<Rightarrow> string" where
  "join_with sep [] = []"
| "join_with sep [x] = x"
| "join_with sep (x # y # ys) = x @ sep @ join_with sep (y # ys)"

text \<open>
  \<^verbatim>\<open>String(v)\<close>, and equally \<^verbatim>\<open>v.toString()\<close> on a truthy \<open>v\<close>. An array joins its
  elements with commas, \<^verbatim>\<open>null\<close> and \<^verbatim>\<open>undefined\<close> elements giving the empty text.
  A parsed object inherits \<^verbatim>\<open>Object.prototype.toString\<close> unless it has a member named
  \<^verbatim>\<open>toString\<close> of its own; such a member is a JSON value, never a function, so the
  conversion throws a \<^verbatim>\<open>TypeError\<close>.
\<close>

fun ToString :: "jsval \<Rightarrow> thrown + string"
  and ToStrings :: "jsval list \<Rightarrow> thrown + string list" where
  "ToString JUndefined = Inr ''undefined''"
| "ToString JNull = Inr ''null''"
| "ToString (JBool b) = Inr (if b then ''true'' else ''false'')"
| "ToString (JNum s) = Inr s"
| "ToString (JStr s) = Inr s"
| "ToString (JArr xs) =
     (case ToStrings xs of Inl e \<Rightarrow> Inl e | Inr ss \<Rightarrow> Inr (join_with '','' ss))"
| "ToString (JObj kvs) =
     (if ''toString'' \<in> fst ` set kvs then Inl TypeError else Inr ''[object Object]'')"
| "ToStrings [] = Inr []"
| "ToStrings (x # xs) =
     (case (if x = JUndefined \<or> x = JNull then Inr [] else ToString x) of
        Inl e \<Rightarrow> Inl e
      | Inr s \<Rightarrow> (case ToStrings xs of Inl e \<Rightarrow> Inl e | Inr ss \<Rightarrow> Inr (s # ss)))"

text \<open>
  Reading \<^verbatim>\<open>v.k\<close> for one of the names \<^verbatim>\<open>phone\<close>, \<^verbatim>\<open>message\<close>, \<^verbatim>\<open>items\<close>, which no
  built-in prototype defines: a \<^verbatim>\<open>TypeError\<close> on \<^verbatim>\<open>null\<close> and \<^verbatim>\<open>undefined\<close>, the
  member of an object, and \<^verbatim>\<open>undefined\<close> everywhere else.
\<close>

definition getProp :: "jsval \<Rightarrow> string \<Rightarrow> thrown + jsval" where
  "getProp v k =
     (case v of
        JUndefined \<Rightarrow> Inl TypeError
      | JNull \<Rightarrow> Inl TypeError
      | JObj kvs \<Rightarrow> Inr (case map_of (rev kvs) k of Some x \<Rightarrow> x | None \<Rightarrow> JUndefined)
      | _ \<Rightarrow> Inr JUndefined)"

section \<open>Phone normalisation\<close>

definition is_digit :: "char \<Rightarrow> bool" where
  "is_digit c = (c \<in> set ''0123456789'')"

definition startsWith :: "string \<Rightarrow> string \<Rightarrow> bool" where
  "startsWith s p = (take (length p) s = p)"

text \<open>
  \<^verbatim>\<open>
  function normPhone(raw) {
    if (!raw) return "";
    let d = String(raw).replace(/\D+/g, "");
    if (d.startsWith("00")) d = d.slice(2);
    return d;
  }
  \<close>
\<close>

definition normPhone :: "jsval \<Rightarrow> thrown + string" where
  "normPhone raw =
     (if \<not> truthy raw then Inr []
      else case ToString raw of
             Inl e \<Rightarrow> Inl e
           | Inr s \<Rightarrow>
               (let d = filter is_digit s
                in Inr (if startsWith d ''00'' then drop 2 d else d)))"

text \<open>\<^verbatim>\<open>(m || "").toString()\<close>, the message text both send handlers compute.\<close>

definition message_text :: "jsval \<Rightarrow> thrown + string" where
  "message_text m = ToString (if truthy m then m else JStr [])"

text \<open>
  Both send handlers begin with the same two statements, on \<^verbatim>\<open>req.body\<close> and on the
  item \<^verbatim>\<open>it\<close>:
  \<^verbatim>\<open>
      const phone = normPhone(it.phone);
      const message = (it.message || "").toString();
  \<close>
  They give the phone as sent by the caller, the normalised phone and the message text,
  or throw.
\<close>

definition read_fields :: "jsval \<Rightarrow> thrown + (jsval \<times> string \<times> string)" where
  "read_fields it =
     (case getProp it ''phone'' of
        Inl e \<Rightarrow> Inl e
      | Inr raw \<Rightarrow>
     (case normPhone raw of
        Inl e \<Rightarrow> Inl e
      | Inr phone \<Rightarrow>
     (case getProp it ''message'' of
        Inl e \<Rightarrow> Inl e
      | Inr m \<Rightarrow>
     (case message_text m of
        Inl e \<Rightarrow> Inl e
      | Inr message \<Rightarrow> Inr (raw, phone, message)))))"

text \<open>The values that are neither arrays nor objects.\<close>

definition primitive :: "jsval \<Rightarrow> bool" where
  "primitive v = (case v of JArr xs \<Rightarrow> False | JObj members \<Rightarrow> False | _ \<Rightarrow> True)"

text \<open>An item is readable when the first two statements of the loop body do not throw on it.\<close>

definition readable :: "jsval \<Rightarrow> bool" where
  "readable it = (case read_fields it of Inl e \<Rightarrow> False | Inr x \<Rightarrow> True)"

section \<open>Session state and \<^verbatim>\<open>GET /status\<close>\<close>

text \<open>
  The only session state of the process is the variable \<^verbatim>\<open>lastQRData\<close>, initially
  \<^verbatim>\<open>null\<close>. The \<^verbatim>\<open>qr\<close> handler stores the payload, the \<^verbatim>\<open>ready\<close> handler stores
  \<^verbatim>\<open>null\<close>, the \<^verbatim>\<open>auth_failure\<close> and \<^verbatim>\<open>disconnected\<close> handlers only log.
\<close>

datatype lifecycle = Qr string | Ready | AuthFailure string | Disconnected string

definition lastQRData_init :: jsval where
  "lastQRData_init = JNull"

fun on_event :: "jsval \<Rightarrow> lifecycle \<Rightarrow> jsval" where
  "on_event lastQRData (Qr qr) = JStr qr"
| "on_event lastQRData Ready = JNull"
| "on_event lastQRData (AuthFailure m) = lastQRData"
| "on_event lastQRData (Disconnected r) = lastQRData"

definition run_events :: "lifecycle list \<Rightarrow> jsval" where
  "run_events evs = foldl on_event lastQRData_init evs"

text \<open>
  In the specification's words: a login code has been issued and no ready event has
  occurred after it.
\<close>

definition qr_pending :: "lifecycle list \<Rightarrow> bool" where
  "qr_pending evs = (\<exists>pre q post. evs = pre @ Qr q # post \<and> Ready \<notin> set post)"

record status_body =
  ok :: bool
  needQr :: bool
  ready :: bool

definition status_handler :: "jsval \<Rightarrow> status_body" where
  "status_handler lastQRData =
     \<lparr> ok = True, needQr = truthy lastQRData, ready = \<not> truthy lastQRData \<rparr>"

section \<open>\<^verbatim>\<open>POST /send\<close> and \<^verbatim>\<open>POST /bulk\<close>\<close>

text \<open>
  The messaging client is outside the repository: \<^verbatim>\<open>client.sendMessage\<close> is a parameter,
  a function of the client's state \<open>'w\<close>, the chat id and the text, which resolves
  (\<open>None\<close>) or rejects with an error text, and leaves a new client state. What a handler
  does to the outside is recorded as a trace: each awaited send with its outcome, and each
  awaited \<^verbatim>\<open>setTimeout\<close> with the delay it was given.
\<close>

type_synonym 'w sender = "'w \<Rightarrow> string \<Rightarrow> string \<Rightarrow> string option \<times> 'w"

datatype effect = Send string string "string option" | Delay int

datatype result = Result (r_phone: jsval) (r_ok: bool) (r_error: "string option")

datatype body =
    BodyOk
  | BodyError string
  | BodyThrown thrown
  | BodyResults "result list"

datatype response = Response (status: nat) (payload: body)

text \<open>
  \<^verbatim>\<open>
  app.post("/send", async (req, res) => {
    try {
      const phone = normPhone(req.body.phone);
      const message = (req.body.message || "").toString();
      if (!phone || !message) {
        return res.status(400).json({ ok: false, error: "phone and message required" });
      }
      await client.sendMessage(`${phone}@c.us`, message);
      res.json({ ok: true });
    } catch (e) {
      res.status(500).json({ ok: false, error: e?.message || String(e) });
    }
  });
  \<close>
\<close>

definition send_handler :: "'w sender \<Rightarrow> jsval \<Rightarrow> 'w \<Rightarrow> response \<times> effect list \<times> 'w" where
  "send_handler sendMessage req_body w =
     (case read_fields req_body of
        Inl e \<Rightarrow> (Response 500 (BodyThrown e), [], w)
      | Inr (raw, phone, message) \<Rightarrow>
          if phone = [] \<or> message = []
          then (Response 400 (BodyError ''phone and message required''), [], w)
          else (case sendMessage w (phone @ ''@c.us'') message of
                  (None, w') \<Rightarrow>
                    (Response 200 BodyOk, [Send (phone @ ''@c.us'') message None], w')
                | (Some err, w') \<Rightarrow>
                    (Response 500 (BodyThrown (Rejected err)),
                     [Send (phone @ ''@c.us'') message (Some err)], w')))"

text \<open>
  \<^verbatim>\<open>RATE_DELAY_MS\<close> is \<^verbatim>\<open>parseInt\<close> of an environment variable: an integer, or
  \<^verbatim>\<open>NaN\<close> (\<open>None\<close>), for which \<^verbatim>\<open>RATE_DELAY_MS > 0\<close> is false.
  \<^verbatim>\<open>
        if (RATE_DELAY_MS > 0) await new Promise((r) => setTimeout(r, RATE_DELAY_MS));
  \<close>
\<close>

definition rate_delay :: "int option \<Rightarrow> effect list" where
  "rate_delay RATE_DELAY_MS =
     (case RATE_DELAY_MS of
        Some n \<Rightarrow> if n > 0 then [Delay n] else []
      | None \<Rightarrow> [])"

text \<open>
  The body of the batch handler's loop, for one item: the entry it pushes to
  \<^verbatim>\<open>results\<close>, what it does to the outside, and the client state it leaves; or the
  throw of its first two statements, which are outside the inner \<^verbatim>\<open>try\<close>.
  \<^verbatim>\<open>
      const phone = normPhone(it.phone);
      const message = (it.message || "").toString();
      if (!phone || !message) {
        results.push({ phone: it.phone, ok: false, error: "bad item" });
        continue;
      }
      try {
        await client.sendMessage(`${phone}@c.us`, message);
        results.push({ phone, ok: true });
        if (RATE_DELAY_MS > 0) await new Promise((r) => setTimeout(r, RATE_DELAY_MS));
      } catch (e) {
        results.push({ phone, ok: false, error: e?.message || String(e) });
      }
  \<close>
\<close>

definition bulk_item ::
  "'w sender \<Rightarrow> int option \<Rightarrow> jsval \<Rightarrow> 'w \<Rightarrow> thrown + (result \<times> effect list \<times> 'w)" where
  "bulk_item sendMessage rate it w =
     (case read_fields it of
        Inl e \<Rightarrow> Inl e
      | Inr (raw, phone, message) \<Rightarrow>
          if phone = [] \<or> message = []
          then Inr (Result raw False (Some ''bad item''), [], w)
          else (case sendMessage w (phone @ ''@c.us'') message of
                  (None, w') \<Rightarrow>
                    Inr (Result (JStr phone) True None,
                         Send (phone @ ''@c.us'') message None # rate_delay rate, w')
                | (Some err, w') \<Rightarrow>
                    Inr (Result (JStr phone) False (Some err),
                         [Send (phone @ ''@c.us'') message (Some err)], w')))"

text \<open>
  The loop \<^verbatim>\<open>for (const it of items) { ... }\<close>, with the \<^verbatim>\<open>results\<close> array and the
  trace so far as accumulators. A throw leaves the loop (\<open>Inl\<close>); what was sent before
  stays sent.
\<close>

fun bulk_loop ::
  "'w sender \<Rightarrow> int option \<Rightarrow> jsval list \<Rightarrow> result list \<Rightarrow> effect list \<Rightarrow> 'w
     \<Rightarrow> (thrown + result list) \<times> effect list \<times> 'w" where
  "bulk_loop sendMessage rate [] results trace w = (Inr results, trace, w)"
| "bulk_loop sendMessage rate (it # items) results trace w =
     (case bulk_item sendMessage rate it w of
        Inl e \<Rightarrow> (Inl e, trace, w)
      | Inr (r, effects, w') \<Rightarrow>
          bulk_loop sendMessage rate items (results @ [r]) (trace @ effects) w')"

text \<open>\<^verbatim>\<open>Array.isArray(v)\<close>, and \<^verbatim>\<open>Array.isArray(v) ? v : []\<close>.\<close>

definition isArray :: "jsval \<Rightarrow> bool" where
  "isArray v = (case v of JArr xs \<Rightarrow> True | _ \<Rightarrow> False)"

definition array_or_empty :: "jsval \<Rightarrow> jsval list" where
  "array_or_empty v = (case v of JArr xs \<Rightarrow> xs | _ \<Rightarrow> [])"

text \<open>
  \<^verbatim>\<open>
  app.post("/bulk", async (req, res) => {
    try {
      const items = Array.isArray(req.body.items) ? req.body.items : [];
      const results = [];
      for (const it of items) { ... }
      res.json({ ok: true, results });
    } catch (e) {
      res.status(500).json({ ok: false, error: e?.message || String(e) });
    }
  });
  \<close>
\<close>

definition bulk_handler ::
  "'w sender \<Rightarrow> int option \<Rightarrow> jsval \<Rightarrow> 'w \<Rightarrow> response \<times> effect list \<times> 'w" where
  "bulk_handler sendMessage rate req_body w =
     (case getProp req_body ''items'' of
        Inl e \<Rightarrow> (Response 500 (BodyThrown e), [], w)
      | Inr v \<Rightarrow>
          (case bulk_loop sendMessage rate (array_or_empty v) [] [] w of
             (Inl e, trace, w') \<Rightarrow> (Response 500 (BodyThrown e), trace, w')
           | (Inr results, trace, w') \<Rightarrow> (Response 200 (BodyResults results), trace, w')))"

subsection \<open>What the specification says of a batch, as predicates\<close>

text \<open>
  A trace is paced at a rate when every send that resolved is followed at once by the
  delay of that rate (if the rate is a positive number), and no delay stands anywhere
  else: none at the start, none after a send that was rejected.
\<close>

fun paced :: "int option \<Rightarrow> effect list \<Rightarrow> bool" where
  "paced rate [] = True"
| "paced rate (Delay n # trace) = False"
| "paced rate (Send chat text (Some err) # trace) = paced rate trace"
| "paced rate (Send chat text None # trace) =
     (case rate of
        None \<Rightarrow> paced rate trace
      | Some n \<Rightarrow>
          if n > 0
          then (case trace of Delay k # trace' \<Rightarrow> k = n \<and> paced rate trace' | _ \<Rightarrow> False)
          else paced rate trace)"

text \<open>
  In the words of the claim about pacing: each send, resolved or rejected, is followed by
  a wait of \<open>n\<close> milliseconds before anything else happens.
\<close>

fun delay_after_each_send :: "int \<Rightarrow> effect list \<Rightarrow> bool" where
  "delay_after_each_send n [] = True"
| "delay_after_each_send n (Delay k # trace) = False"
| "delay_after_each_send n (Send chat text outcome # trace) =
     (case trace of Delay k # trace' \<Rightarrow> k = n \<and> delay_after_each_send n trace' | _ \<Rightarrow> False)"

text \<open>The sends of a trace, in their order: chat id and text.\<close>

fun sent :: "effect list \<Rightarrow> (string \<times> string) list" where
  "sent [] = []"
| "sent (Send chat text outcome # trace) = (chat, text) # sent trace"
| "sent (Delay n # trace) = sent trace"

text \<open>
  The send an item asks for: none when its fields cannot be read or it is a bad item,
  else the chat id of its normalised phone and its message text.
\<close>

definition request_of :: "jsval \<Rightarrow> (string \<times> string) option" where
  "request_of it =
     (case read_fields it of
        Inl e \<Rightarrow> None
      | Inr (raw, phone, message) \<Rightarrow>
          if phone = [] \<or> message = [] then None else Some (phone @ ''@c.us'', message))"

text \<open>
  The entry the specification expects for an item whose fields read as \<open>raw\<close>,
  \<open>phone\<close> and \<open>message\<close>: marked bad, or carrying the normalised phone and either
  \<^verbatim>\<open>ok:true\<close> or an error text.
\<close>

definition entry_for :: "jsval \<Rightarrow> result \<Rightarrow> bool" where
  "entry_for it r =
     (case read_fields it of
        Inl e \<Rightarrow> False
      | Inr (raw, phone, message) \<Rightarrow>
          if phone = [] \<or> message = []
          then r = Result raw False (Some ''bad item'')
          else r_phone r = JStr phone \<and> (r_ok r \<longleftrightarrow> r_error r = None))"

subsection \<open>Sample clients and request bodies\<close>

text \<open>A client whose every send resolves, and one whose every send is rejected.\<close>

definition always_resolves :: "unit sender" where
  "always_resolves w chat text = (None, w)"

definition always_rejects :: "unit sender" where
  "always_rejects w chat text = (Some ''not ready'', w)"

text \<open>
  \<^verbatim>\<open>{"phone": {"toString": 1}}\<close>, \<^verbatim>\<open>{"message": {"toString": 1}}\<close>,
  \<^verbatim>\<open>{"phone": "+20 100", "message": "hi"}\<close>,
  \<^verbatim>\<open>{"phone": "+20 100"}\<close>, and the batches
  \<^verbatim>\<open>{"items": [{"phone":"1","message":"a"}, {"phone":"","message":"b"}]}\<close>,
  \<^verbatim>\<open>{"items": [{"phone":"1","message":"a"}, {"phone":"2","message":"b"}]}\<close>,
  \<^verbatim>\<open>{"items": [{"phone":"1","message":"a"}, null]}\<close> and
  \<^verbatim>\<open>{"items": [{"phone":"+20 (100)","message":""}, {"phone":"+20 (100)","message":"hi"}]}\<close>.
\<close>

definition body_object_phone :: jsval where
  "body_object_phone = JObj [(''phone'', JObj [(''toString'', JNum ''1'')])]"

definition body_object_message :: jsval where
  "body_object_message = JObj [(''message'', JObj [(''toString'', JNum ''1'')])]"

definition body_phone_message :: jsval where
  "body_phone_message = JObj [(''phone'', JStr ''+20 100''), (''message'', JStr ''hi'')]"

definition body_phone_only :: jsval where
  "body_phone_only = JObj [(''phone'', JStr ''+20 100'')]"

definition item_1a :: jsval where
  "item_1a = JObj [(''phone'', JStr ''1''), (''message'', JStr ''a'')]"

definition batch_spec_example :: jsval where
  "batch_spec_example =
     JObj [(''items'', JArr [item_1a, JObj [(''phone'', JStr []), (''message'', JStr ''b'')]])]"

definition batch_two :: jsval where
  "batch_two =
     JObj [(''items'', JArr [item_1a, JObj [(''phone'', JStr ''2''), (''message'', JStr ''b'')]])]"

definition batch_with_null :: jsval where
  "batch_with_null = JObj [(''items'', JArr [item_1a, JNull])]"

definition batch_formatted :: jsval where
  "batch_formatted =
     JObj [(''items'', JArr [JObj [(''phone'', JStr ''+20 (100)''), (''message'', JStr [])],
                            JObj [(''phone'', JStr ''+20 (100)''), (''message'', JStr ''hi'')]])]"

section \<open>The profile directory\<close>

text \<open>
  A path is its list of segments below the file system's root; \<^verbatim>\<open>path.join(dir, name)\<close>
  with a plain name (the marker names, the profile name) appends one segment. The file
  system holds a file, a directory or a symbolic link at some paths; the root itself is
  always a directory. A link is recorded with what following it reaches: nothing (a
  dangling link, the form the \<^verbatim>\<open>SingletonLock\<close> and \<^verbatim>\<open>SingletonCookie\<close> of a browser
  take on Linux and macOS, where they point at a host name and process id and not at a
  file), a file, or a directory; what a link reaches is taken as fixed during a call of
  the resolver. The calls that can fail are \<^verbatim>\<open>fs.rmSync\<close> and \<^verbatim>\<open>fs.mkdirSync\<close>; where
  they are refused (a read-only volume, a file held by a running browser, missing rights)
  is part of the file system's state.
\<close>

type_synonym path = "string list"

datatype reached = Missing | IsFile | IsDir

datatype kind = File | Dir | Link reached

record filesys =
  entries :: "path \<rightharpoonup> kind"
  rm_denied :: "path set"
  mkdir_denied :: "path set"

text \<open>
  \<^verbatim>\<open>fs.existsSync(p)\<close> follows links: it is false where nothing is, and false on a
  dangling link.
\<close>

definition existsSync :: "path \<Rightarrow> filesys \<Rightarrow> bool" where
  "existsSync p fs =
     (p = [] \<or>
      (case entries fs p of
         None \<Rightarrow> False
       | Some (Link Missing) \<Rightarrow> False
       | Some k \<Rightarrow> True))"


text \<open>
  \<^verbatim>\<open>fs.rmSync(p, { force: true })\<close> looks at \<open>p\<close> itself, not through a link: nothing
  to do when \<open>p\<close> is absent; throws (\<open>None\<close>) on a directory, since \<^verbatim>\<open>recursive\<close>
  is not set, and where removal is refused; removes the file or the link otherwise.
\<close>

definition rmSync :: "path \<Rightarrow> filesys \<Rightarrow> filesys option" where
  "rmSync p fs =
     (case entries fs p of
        None \<Rightarrow> Some fs
      | Some Dir \<Rightarrow> None
      | Some k \<Rightarrow>
          if p \<in> rm_denied fs then None
          else Some (fs\<lparr>entries := (entries fs)(p := None)\<rparr>))"

text \<open>
  \<^verbatim>\<open>fs.mkdirSync(p, { recursive: true })\<close> walks the ancestors of \<open>p\<close> from the top
  and \<open>p\<close> itself, creating what is missing and passing what is a directory already, be
  it through a link. It throws at a file or a link to anything else in the way, and where
  creation is refused; the flag returned is whether it threw.
\<close>

fun mkdir_chain :: "path list \<Rightarrow> filesys \<Rightarrow> bool \<times> filesys" where
  "mkdir_chain [] fs = (False, fs)"
| "mkdir_chain (p # ps) fs =
     (case entries fs p of
        Some Dir \<Rightarrow> mkdir_chain ps fs
      | Some (Link IsDir) \<Rightarrow> mkdir_chain ps fs
      | Some k \<Rightarrow> (True, fs)
      | None \<Rightarrow>
          if p \<in> mkdir_denied fs then (True, fs)
          else mkdir_chain ps (fs\<lparr>entries := (entries fs)(p \<mapsto> Dir)\<rparr>))"

definition mkdirSync :: "path \<Rightarrow> filesys \<Rightarrow> bool \<times> filesys" where
  "mkdirSync p fs = mkdir_chain (tl (prefixes p)) fs"

text \<open>
  \<^verbatim>\<open>
  function ensureDir(p) {
    try { fs.mkdirSync(p, { recursive: true }); } catch {}
  }
  \<close>
\<close>

definition ensureDir :: "path \<Rightarrow> filesys \<Rightarrow> filesys" where
  "ensureDir p fs = snd (mkdirSync p fs)"

text \<open>
  \<^verbatim>\<open>
  function hasSingletonLocks(dir) {
    try {
      return (
        fs.existsSync(path.join(dir, "SingletonLock")) ||
        fs.existsSync(path.join(dir, "SingletonCookie"))
      );
    } catch { return false; }
  }
  \<close>
  Neither call throws on string arguments, so the \<^verbatim>\<open>catch\<close> has no case.
\<close>

definition hasSingletonLocks :: "path \<Rightarrow> filesys \<Rightarrow> bool" where
  "hasSingletonLocks dir fs =
     (existsSync (dir @ [''SingletonLock'']) fs \<or> existsSync (dir @ [''SingletonCookie'']) fs)"

text \<open>
  \<^verbatim>\<open>
  function removeSingletonLocks(dir) {
    try {
      for (const f of ["SingletonLock", "SingletonCookie"]) {
        const p = path.join(dir, f);
        if (fs.existsSync(p)) fs.rmSync(p, { force: true });
      }
    } catch {}
  }
  \<close>
  The \<^verbatim>\<open>try\<close> encloses the loop: a removal that throws ends it. A marker that
  \<^verbatim>\<open>fs.existsSync\<close> does not report is not removed.
\<close>

fun remove_loop :: "path \<Rightarrow> string list \<Rightarrow> filesys \<Rightarrow> filesys" where
  "remove_loop dir [] fs = fs"
| "remove_loop dir (f # rest) fs =
     (if existsSync (dir @ [f]) fs
      then (case rmSync (dir @ [f]) fs of
              None \<Rightarrow> fs
            | Some fs' \<Rightarrow> remove_loop dir rest fs')
      else remove_loop dir rest fs)"

definition removeSingletonLocks :: "path \<Rightarrow> filesys \<Rightarrow> filesys" where
  "removeSingletonLocks dir fs = remove_loop dir [''SingletonLock'', ''SingletonCookie''] fs"

text \<open>
  \<^verbatim>\<open>new Date().toISOString().replace(/[:]/g, "-").split(".")[0]\<close>, from the text
  \<^verbatim>\<open>toISOString\<close> returned: every colon becomes a dash, and the text ends before the
  first full stop, that is before the milliseconds.
\<close>

definition stamp :: "string \<Rightarrow> string" where
  "stamp now =
     takeWhile (\<lambda>c. c \<noteq> CHR ''.'') (map (\<lambda>c. if c = CHR '':'' then CHR ''-'' else c) now)"

text \<open>
  \<^verbatim>\<open>
  function pickProfileDir() {
    ensureDir(PROFILES_ROOT);
    const base = path.join(PROFILES_ROOT, DEFAULT_PROFILE_NAME);
    if (!hasSingletonLocks(base)) return base;
    removeSingletonLocks(base);
    if (!hasSingletonLocks(base)) return base;
    const stamp = new Date().toISOString().replace(/[:]/g, "-").split(".")[0];
    const alt = path.join(PROFILES_ROOT, `${DEFAULT_PROFILE_NAME}_${stamp}`);
    ensureDir(alt);
    return alt;
  }
  \<close>
  The two constants and the clock's reading are parameters; the result is the path
  returned and the file system the call leaves.
\<close>

definition pickProfileDir :: "path \<Rightarrow> string \<Rightarrow> string \<Rightarrow> filesys \<Rightarrow> path \<times> filesys" where
  "pickProfileDir PROFILES_ROOT DEFAULT_PROFILE_NAME now fs =
     (let fs1 = ensureDir PROFILES_ROOT fs;
          base = PROFILES_ROOT @ [DEFAULT_PROFILE_NAME]
      in if \<not> hasSingletonLocks base fs1 then (base, fs1)
         else let fs2 = removeSingletonLocks base fs1
              in if \<not> hasSingletonLocks base fs2 then (base, fs2)
                 else let alt = PROFILES_ROOT @ [DEFAULT_PROFILE_NAME @ ''_'' @ stamp now]
                      in (alt, ensureDir alt fs2))"

text \<open>Calling the resolver again and again, at the given clock readings.\<close>

fun pick_repeatedly :: "path \<Rightarrow> string \<Rightarrow> string list \<Rightarrow> filesys \<Rightarrow> path list" where
  "pick_repeatedly root name [] fs = []"
| "pick_repeatedly root name (now # later) fs =
     (case pickProfileDir root name now fs of
        (p, fs') \<Rightarrow> p # pick_repeatedly root name later fs')"

text \<open>
  A lock marker is present in a directory when there is anything at one of the two marker
  paths, be it a dangling link.
\<close>

definition marker_present :: "path \<Rightarrow> filesys \<Rightarrow> bool" where
  "marker_present dir fs =
     (entries fs (dir @ [''SingletonLock'']) \<noteq> None
      \<or> entries fs (dir @ [''SingletonCookie'']) \<noteq> None)"

text \<open>
  Four file systems for the profile root \<^verbatim>\<open>/app/.chrome_profiles\<close> and the profile
  \<^verbatim>\<open>nour\<close>: one with no lock marker; one whose \<^verbatim>\<open>SingletonLock\<close>, a file, cannot be
  removed while directories can still be created; one, owned by another user or mounted
  read-only, where neither removal nor creation is allowed; and one whose two markers are
  dangling links, as a browser running on Linux or macOS leaves them.
\<close>

definition fs_unlocked :: filesys where
  "fs_unlocked =
     \<lparr> entries = [[''app''] \<mapsto> Dir, [''app'', ''.chrome_profiles''] \<mapsto> Dir,
                  [''app'', ''.chrome_profiles'', ''nour''] \<mapsto> Dir],
       rm_denied = {}, mkdir_denied = {} \<rparr>"




section \<open>Properties of the phone normaliser\<close>

lemma startsWith_prefix: "startsWith s p = prefix p s"
proof
  assume "startsWith s p"
  then have "p = take (length p) s" by (simp add: startsWith_def)
  then show "prefix p s" by (metis take_is_prefix)
next
  assume "prefix p s"
  then obtain zs where "s = p @ zs" by (auto simp: prefix_def)
  then show "startsWith s p" by (simp add: startsWith_def)
qed

lemma normPhone_JStr:
  "normPhone (JStr s) =
     Inr (if prefix ''00'' (filter is_digit s) then drop 2 (filter is_digit s)
          else filter is_digit s)"
  by (cases "s = []") (simp_all add: normPhone_def Let_def startsWith_prefix)

lemma normPhone_digits: "normPhone raw = Inr d \<Longrightarrow> list_all is_digit d"
  by (auto simp: normPhone_def Let_def list_all_iff split: if_splits sum.splits
      dest: in_set_dropD)

text \<open>
  C3. On every string the normaliser returns the digits of the string, in their order,
  without the first two of them when they are \<^verbatim>\<open>00\<close>; the prefix is taken off once only
  (\<^verbatim>\<open>000012\<close> gives \<^verbatim>\<open>0012\<close>); the result holds digits only; and the two examples of
  the specification come out as it says.
\<close>

theorem normPhone_string:
  "\<exists>r. normPhone (JStr s) = Inr r
      \<and> r = (let d = filter is_digit s in if prefix ''00'' d then drop 2 d else d)
      \<and> list_all is_digit r
      \<and> normPhone (JStr ''0020100123456'') = Inr ''20100123456''
      \<and> normPhone (JStr ''+201001234567'') = Inr ''201001234567''
      \<and> normPhone (JStr ''000012'') = Inr ''0012''"
proof -
  have e1: "normPhone (JStr ''0020100123456'') = Inr ''20100123456''"
    by (simp add: normPhone_def is_digit_def startsWith_def)
  have e2: "normPhone (JStr ''+201001234567'') = Inr ''201001234567''"
    by (simp add: normPhone_def is_digit_def startsWith_def)
  have e3: "normPhone (JStr ''000012'') = Inr ''0012''"
    by (simp add: normPhone_def is_digit_def startsWith_def)
  show ?thesis
    using normPhone_JStr [of s] normPhone_digits [of "JStr s"] e1 e2 e3
    by (simp add: Let_def)
qed

section \<open>Properties of the session state\<close>

text \<open>
  C2, as the code has it. At process start \<^verbatim>\<open>lastQRData\<close> is \<^verbatim>\<open>null\<close>, and
  \<^verbatim>\<open>GET /status\<close> answers \<^verbatim>\<open>needQr:false\<close> and \<^verbatim>\<open>ready:true\<close>: \<^verbatim>\<open>ready\<close> is
  computed as the negation of \<^verbatim>\<open>needQr\<close>, and the process keeps no other flag.
\<close>

theorem status_initial:
  "status_handler lastQRData_init = \<lparr> ok = True, needQr = False, ready = True \<rparr>"
  by (simp add: status_handler_def lastQRData_init_def)

text \<open>The answer in the initial state is not \<^verbatim>\<open>ready:false\<close> with \<^verbatim>\<open>needQr:false\<close>.\<close>

theorem status_initial_not_unready:
  "\<not> (ready (status_handler lastQRData_init) = False
      \<and> needQr (status_handler lastQRData_init) = False)"
  by (simp add: status_handler_def lastQRData_init_def)

lemma run_events_snoc: "run_events (evs @ [x]) = on_event (run_events evs) x"
  by (simp add: run_events_def)

lemma qr_pending_snoc:
  "qr_pending (evs @ [x]) \<longleftrightarrow> (\<exists>q. x = Qr q) \<or> (x \<noteq> Ready \<and> qr_pending evs)"
proof
  assume "qr_pending (evs @ [x])"
  then obtain pre q post where d: "evs @ [x] = pre @ Qr q # post" and r: "Ready \<notin> set post"
    unfolding qr_pending_def by blast
  show "(\<exists>q. x = Qr q) \<or> (x \<noteq> Ready \<and> qr_pending evs)"
  proof (cases post rule: rev_cases)
    case Nil
    with d show ?thesis by simp
  next
    case (snoc post' y)
    with d have "evs = pre @ Qr q # post'" "x = y" by simp_all
    with r snoc show ?thesis unfolding qr_pending_def by auto
  qed
next
  assume a: "(\<exists>q. x = Qr q) \<or> (x \<noteq> Ready \<and> qr_pending evs)"
  then show "qr_pending (evs @ [x])"
  proof
    assume "\<exists>q. x = Qr q"
    then obtain q where "x = Qr q" ..
    then have "evs @ [x] = evs @ Qr q # [] \<and> Ready \<notin> set []" by simp
    then show ?thesis unfolding qr_pending_def by blast
  next
    assume b: "x \<noteq> Ready \<and> qr_pending evs"
    then obtain pre q post where "evs = pre @ Qr q # post" "Ready \<notin> set post"
      unfolding qr_pending_def by blast
    with b have "evs @ [x] = pre @ Qr q # (post @ [x]) \<and> Ready \<notin> set (post @ [x])"
      by auto
    then show ?thesis unfolding qr_pending_def by blast
  qed
qed

lemma truthy_run_events:
  "Qr [] \<notin> set evs \<Longrightarrow> truthy (run_events evs) = qr_pending evs"
proof (induction evs rule: rev_induct)
  case Nil
  then show ?case by (simp add: run_events_def lastQRData_init_def qr_pending_def)
next
  case (snoc x evs)
  then have ih: "truthy (run_events evs) = qr_pending evs" by simp
  show ?case
    using snoc.prems ih by (cases x) (auto simp: run_events_snoc qr_pending_snoc)
qed

text \<open>
  C4, as the code has it. \<^verbatim>\<open>needQr\<close> is the truthiness of the stored login code, and
  an empty text is falsy. After any sequence of lifecycle events from the initial state in
  which every login code issued is a non-empty text, \<^verbatim>\<open>GET /status\<close> reports
  \<^verbatim>\<open>needQr:true\<close> exactly
  when some \<^verbatim>\<open>qr\<close> event has no \<^verbatim>\<open>ready\<close> event after it. An \<^verbatim>\<open>auth_failure\<close> or
  \<^verbatim>\<open>disconnected\<close> event leaves the answer of \<^verbatim>\<open>GET /status\<close> as it was, in every
  state.
\<close>

theorem status_needQr_iff:
  assumes "Qr [] \<notin> set evs"
  shows "needQr (status_handler (run_events evs))
           = (\<exists>pre q post. evs = pre @ Qr q # post \<and> Ready \<notin> set post)
       \<and> status_handler (on_event s (AuthFailure m)) = status_handler s
       \<and> status_handler (on_event s (Disconnected r)) = status_handler s"
  using truthy_run_events [OF assms] by (simp add: status_handler_def qr_pending_def)

theorem status_needQr_iff_witness:
  "Qr [] \<notin> set [Qr ''2@abc'', AuthFailure ''x'', Disconnected ''y'']
     \<and> needQr (status_handler (run_events [Qr ''2@abc'', AuthFailure ''x'', Disconnected ''y'']))
     \<and> \<not> needQr (status_handler (run_events [Qr ''2@abc'', Ready, Disconnected ''y'']))"
proof -
  have h1: "Qr [] \<notin> set [Qr ''2@abc'', AuthFailure ''x'', Disconnected ''y'']" by simp
  have h2: "Qr [] \<notin> set [Qr ''2@abc'', Ready, Disconnected ''y'']" by simp
  have "[Qr ''2@abc'', AuthFailure ''x'', Disconnected ''y'']
          = [] @ Qr ''2@abc'' # [AuthFailure ''x'', Disconnected ''y'']
        \<and> Ready \<notin> set [AuthFailure ''x'', Disconnected ''y'']" by simp
  then have ex: "\<exists>pre q post. [Qr ''2@abc'', AuthFailure ''x'', Disconnected ''y'']
          = pre @ Qr q # post \<and> Ready \<notin> set post" by blast
  have "\<not> (\<exists>pre q post. [Qr ''2@abc'', Ready, Disconnected ''y'']
          = pre @ Qr q # post \<and> Ready \<notin> set post)"
    by (auto simp: Cons_eq_append_conv)
  then show ?thesis
    using status_needQr_iff [OF h1] status_needQr_iff [OF h2] h1 ex by simp
qed

text \<open>
  A \<^verbatim>\<open>qr\<close> event whose login code is the empty text, with no \<^verbatim>\<open>ready\<close> event after
  it: \<^verbatim>\<open>GET /status\<close> reports \<^verbatim>\<open>needQr:false\<close>.
\<close>

theorem status_needQr_empty_code:
  "[Qr []] = [] @ Qr [] # [] \<and> Ready \<notin> set ([] :: lifecycle list)
     \<and> needQr (status_handler (run_events [Qr []])) = False"
  by (simp add: status_handler_def run_events_def lastQRData_init_def)

section \<open>Properties of the profile directory resolver\<close>

lemma mkdir_chain_keeps:
  "q \<notin> set ps \<Longrightarrow> entries (snd (mkdir_chain ps fs)) q = entries fs q"
  by (induction ps fs rule: mkdir_chain.induct)
     (auto split: option.splits kind.splits reached.splits)






lemma set_tl_prefixes: "set (tl (prefixes p)) = {q. prefix q p \<and> q \<noteq> []}"
  by (cases p) (auto simp: prefix_Cons image_iff)


text \<open>Creating the profile root never touches what lies two levels below it.\<close>

lemma marker_not_created:
  "entries (ensureDir root fs) (root @ name # m # rest) = entries fs (root @ name # m # rest)"
  unfolding ensureDir_def mkdirSync_def
  by (rule mkdir_chain_keeps) (auto simp: set_tl_prefixes dest: prefix_length_le)

lemma hasSingletonLocks_ensureDir:
  "hasSingletonLocks (root @ [name]) (ensureDir root fs)
     = hasSingletonLocks (root @ [name]) fs"
  using marker_not_created [of root fs name _ "[]"]
  by (simp add: hasSingletonLocks_def existsSync_def)

lemma pickProfileDir_unlocked:
  "\<not> hasSingletonLocks (root @ [name]) fs \<Longrightarrow>
     pickProfileDir root name now fs = (root @ [name], ensureDir root fs)"
  by (simp add: pickProfileDir_def Let_def hasSingletonLocks_ensureDir)

lemma pick_repeatedly_unlocked:
  "\<not> hasSingletonLocks (root @ [name]) fs \<Longrightarrow>
     pick_repeatedly root name nows fs = replicate (length nows) (root @ [name])"
  by (induction nows arbitrary: fs)
     (simp_all add: pickProfileDir_unlocked hasSingletonLocks_ensureDir)














text \<open>A marker that is reported is present; the converse fails on a dangling link.\<close>

lemma hasSingletonLocks_present: "hasSingletonLocks dir fs \<Longrightarrow> marker_present dir fs"
  by (auto simp: hasSingletonLocks_def marker_present_def existsSync_def split: option.splits)

lemma no_marker_unseen: "\<not> marker_present dir fs \<Longrightarrow> \<not> hasSingletonLocks dir fs"
  using hasSingletonLocks_present by blast

text \<open>
  C7. When the default profile directory has no lock marker that \<^verbatim>\<open>fs.existsSync\<close>
  reports, the resolver returns the default path, root joined with the profile name; it
  leaves the directory without such markers, and any number of further calls, at any clock
  readings, return that same path.
\<close>

theorem pickProfileDir_no_locks:
  assumes "\<not> hasSingletonLocks (root @ [name]) fs"
  shows "fst (pickProfileDir root name now fs) = root @ [name]
       \<and> \<not> hasSingletonLocks (root @ [name]) (snd (pickProfileDir root name now fs))
       \<and> pick_repeatedly root name nows fs = replicate (length nows) (root @ [name])"
  using assms
  by (simp add: pickProfileDir_unlocked pick_repeatedly_unlocked hasSingletonLocks_ensureDir)

theorem pickProfileDir_no_locks_witness:
  "\<not> hasSingletonLocks [''app'', ''.chrome_profiles'', ''nour''] fs_unlocked
     \<and> fst (pickProfileDir [''app'', ''.chrome_profiles''] ''nour''
              ''2026-11-02T03:04:05.678Z'' fs_unlocked)
         = [''app'', ''.chrome_profiles'', ''nour'']
     \<and> pick_repeatedly [''app'', ''.chrome_profiles''] ''nour''
          [''2026-11-02T03:04:05.678Z'', ''2026-11-02T03:04:06.001Z''] fs_unlocked
         = [[''app'', ''.chrome_profiles'', ''nour''], [''app'', ''.chrome_profiles'', ''nour'']]"
proof -
  have h: "\<not> hasSingletonLocks ([''app'', ''.chrome_profiles''] @ [''nour'']) fs_unlocked"
    by (simp add: fs_unlocked_def hasSingletonLocks_def existsSync_def)
  show ?thesis
    using h pickProfileDir_no_locks [OF h,
        of "''2026-11-02T03:04:05.678Z''"
           "[''2026-11-02T03:04:05.678Z'', ''2026-11-02T03:04:06.001Z'']"]
    by (simp add: numeral_2_eq_2)
qed




section \<open>Properties of the send handlers\<close>

lemma primitive_ToString: "primitive v \<Longrightarrow> \<not> isl (ToString v)"
  by (cases v) (simp_all add: primitive_def)

lemma normPhone_converts: "\<not> isl (ToString raw) \<Longrightarrow> \<exists>phone. normPhone raw = Inr phone"
  by (cases "ToString raw") (simp_all add: normPhone_def Let_def)

lemma message_text_converts: "\<not> isl (ToString m) \<Longrightarrow> \<exists>message. message_text m = Inr message"
  by (cases "ToString m") (simp_all add: message_text_def)

lemma read_fields_Inr:
  "read_fields it = Inr (raw, phone, message) \<longleftrightarrow>
     getProp it ''phone'' = Inr raw \<and> normPhone raw = Inr phone
     \<and> (\<exists>m. getProp it ''message'' = Inr m \<and> message_text m = Inr message)"
  by (auto simp: read_fields_def split: sum.splits)

lemma getProp_absent: "k \<notin> fst ` set members \<Longrightarrow> getProp (JObj members) k = Inr JUndefined"
proof -
  assume "k \<notin> fst ` set members"
  then have "map_of (rev members) k = None"
    by (simp add: map_of_eq_None_iff)
  then show ?thesis by (simp add: getProp_def)
qed

text \<open>
  C8, as the code has it. Take a request to \<^verbatim>\<open>POST /send\<close> whose body is not
  \<^verbatim>\<open>null\<close> and whose phone and message values convert to text without throwing (every
  string, number, boolean, \<^verbatim>\<open>null\<close> and absent field does). When the message is absent
  or empty, or the phone is absent or normalises to the empty text, the answer is 400 with
  the error body, and nothing is sent. Otherwise one send is made: the answer is 200 when
  it resolves, and 500 with the error text when it is rejected.
\<close>

theorem send_handler_responses:
  assumes "getProp req_body ''phone'' = Inr raw"
    and "getProp req_body ''message'' = Inr m"
    and "\<not> isl (ToString raw)"
    and "\<not> isl (ToString m)"
  shows "\<exists>phone message.
           normPhone raw = Inr phone \<and> message_text m = Inr message
         \<and> (\<not> truthy raw \<longrightarrow> phone = [])
         \<and> (\<not> truthy m \<longrightarrow> message = [])
         \<and> (if phone = [] \<or> message = []
            then send_handler sendMessage req_body w
                   = (Response 400 (BodyError ''phone and message required''), [], w)
            else (case sendMessage w (phone @ ''@c.us'') message of
                    (None, w') \<Rightarrow>
                      send_handler sendMessage req_body w
                        = (Response 200 BodyOk, [Send (phone @ ''@c.us'') message None], w')
                  | (Some err, w') \<Rightarrow>
                      send_handler sendMessage req_body w
                        = (Response 500 (BodyThrown (Rejected err)),
                           [Send (phone @ ''@c.us'') message (Some err)], w')))
       \<and> (primitive v \<longrightarrow> \<not> isl (ToString v))"
proof -
  from assms(3) obtain phone where p: "normPhone raw = Inr phone"
    using normPhone_converts by blast
  from assms(4) obtain message where t: "message_text m = Inr message"
    using message_text_converts by blast
  have rf: "read_fields req_body = Inr (raw, phone, message)"
    using assms(1,2) p t by (auto simp: read_fields_Inr)
  have e1: "\<not> truthy raw \<longrightarrow> phone = []"
    using p by (auto simp: normPhone_def)
  have e2: "\<not> truthy m \<longrightarrow> message = []"
    using t by (auto simp: message_text_def)
  have run: "if phone = [] \<or> message = []
            then send_handler sendMessage req_body w
                   = (Response 400 (BodyError ''phone and message required''), [], w)
            else (case sendMessage w (phone @ ''@c.us'') message of
                    (None, w') \<Rightarrow>
                      send_handler sendMessage req_body w
                        = (Response 200 BodyOk, [Send (phone @ ''@c.us'') message None], w')
                  | (Some err, w') \<Rightarrow>
                      send_handler sendMessage req_body w
                        = (Response 500 (BodyThrown (Rejected err)),
                           [Send (phone @ ''@c.us'') message (Some err)], w'))"
    using rf by (auto simp: send_handler_def split: prod.splits option.splits)
  from p t e1 e2 run primitive_ToString [of v] show ?thesis by blast
qed

lemma normPhone_plus20_100: "normPhone (JStr ''+20 100'') = Inr ''20100''"
  by (simp add: normPhone_def is_digit_def startsWith_def)

theorem send_handler_responses_witness:
  "getProp body_phone_only ''phone'' = Inr (JStr ''+20 100'')
     \<and> getProp body_phone_only ''message'' = Inr JUndefined
     \<and> \<not> isl (ToString (JStr ''+20 100'')) \<and> \<not> isl (ToString JUndefined)
     \<and> send_handler always_resolves body_phone_only ()
         = (Response 400 (BodyError ''phone and message required''), [], ())
     \<and> getProp body_phone_message ''phone'' = Inr (JStr ''+20 100'')
     \<and> getProp body_phone_message ''message'' = Inr (JStr ''hi'')
     \<and> \<not> isl (ToString (JStr ''hi''))
     \<and> send_handler always_rejects body_phone_message ()
         = (Response 500 (BodyThrown (Rejected ''not ready'')),
            [Send ''20100@c.us'' ''hi'' (Some ''not ready'')], ())"
proof -
  have a1: "getProp body_phone_only ''phone'' = Inr (JStr ''+20 100'')"
    by (simp add: body_phone_only_def getProp_def)
  have a2: "getProp body_phone_only ''message'' = Inr JUndefined"
    by (simp add: body_phone_only_def getProp_def)
  have a3: "\<not> isl (ToString (JStr ''+20 100''))" by simp
  have a4: "\<not> isl (ToString JUndefined)" by simp
  have b1: "getProp body_phone_message ''phone'' = Inr (JStr ''+20 100'')"
    by (simp add: body_phone_message_def getProp_def)
  have b2: "getProp body_phone_message ''message'' = Inr (JStr ''hi'')"
    by (simp add: body_phone_message_def getProp_def)
  have b4: "\<not> isl (ToString (JStr ''hi''))" by simp
  have m0: "message_text JUndefined = Inr []" by (simp add: message_text_def)
  have m1: "message_text (JStr ''hi'') = Inr ''hi''" by (simp add: message_text_def)
  have r1: "send_handler always_resolves body_phone_only ()
              = (Response 400 (BodyError ''phone and message required''), [], ())"
    using send_handler_responses [OF a1 a2 a3 a4, of always_resolves "()" JNull]
    by (auto simp: normPhone_plus20_100 m0)
  have r2: "send_handler always_rejects body_phone_message ()
              = (Response 500 (BodyThrown (Rejected ''not ready'')),
                 [Send ''20100@c.us'' ''hi'' (Some ''not ready'')], ())"
    using send_handler_responses [OF b1 b2 a3 b4, of always_rejects "()" JNull]
    by (auto simp: normPhone_plus20_100 m1 always_rejects_def)
  from a1 a2 a3 a4 r1 b1 b2 b4 r2 show ?thesis by blast
qed

text \<open>
  A body with no message, whose phone is the object \<^verbatim>\<open>{"toString": 1}\<close>: converting the
  phone throws, and the answer is 500, not 400. A body with no phone, whose message is
  that object: converting the message throws, and the answer is 500, not 400.
\<close>

theorem send_handler_object_phone:
  "getProp body_object_phone ''message'' = Inr JUndefined
     \<and> send_handler always_resolves body_object_phone ()
         = (Response 500 (BodyThrown TypeError), [], ())
     \<and> getProp body_object_message ''phone'' = Inr JUndefined
     \<and> send_handler always_resolves body_object_message ()
         = (Response 500 (BodyThrown TypeError), [], ())"
  by (simp add: body_object_phone_def body_object_message_def getProp_def send_handler_def
      read_fields_def normPhone_def message_text_def)

text \<open>
  C9. A \<^verbatim>\<open>POST /bulk\<close> whose \<^verbatim>\<open>items\<close> value is not an array, and in particular a
  body object with no \<^verbatim>\<open>items\<close> member, is answered with 200 and an empty results
  array; nothing is sent.
\<close>

theorem bulk_handler_not_array:
  "(getProp req_body ''items'' = Inr v \<and> \<not> isArray v
      \<longrightarrow> bulk_handler sendMessage rate req_body w = (Response 200 (BodyResults []), [], w))
   \<and> (''items'' \<notin> fst ` set members
      \<longrightarrow> bulk_handler sendMessage rate (JObj members) w
            = (Response 200 (BodyResults []), [], w))"
proof -
  have gen: "bulk_handler sendMessage rate b w = (Response 200 (BodyResults []), [], w)"
    if "getProp b ''items'' = Inr u" "\<not> isArray u" for b u
    using that by (cases u) (simp_all add: bulk_handler_def isArray_def array_or_empty_def)
  have "\<not> isArray JUndefined" by (simp add: isArray_def)
  with gen getProp_absent show ?thesis by blast
qed

theorem bulk_handler_not_array_witness:
  "getProp (JObj [(''items'', JStr ''abc'')]) ''items'' = Inr (JStr ''abc'')
     \<and> \<not> isArray (JStr ''abc'')
     \<and> bulk_handler always_resolves (Some 120) (JObj [(''items'', JStr ''abc'')]) ()
         = (Response 200 (BodyResults []), [], ())
     \<and> ''items'' \<notin> fst ` set [(''phone'', JStr ''+20 100'')]
     \<and> bulk_handler always_resolves (Some 120) (JObj [(''phone'', JStr ''+20 100'')]) ()
         = (Response 200 (BodyResults []), [], ())"
proof -
  have a: "getProp (JObj [(''items'', JStr ''abc'')]) ''items'' = Inr (JStr ''abc'')"
    by (simp add: getProp_def)
  have b: "\<not> isArray (JStr ''abc'')" by (simp add: isArray_def)
  have c: "''items'' \<notin> fst ` set [(''phone'', JStr ''+20 100'')]" by simp
  note inst1 = bulk_handler_not_array [of "JObj [(''items'', JStr ''abc'')]" "JStr ''abc''"
      always_resolves "Some 120" "()" "[]", THEN conjunct1, rule_format]
  note inst2 = bulk_handler_not_array [of JNull JNull
      always_resolves "Some 120" "()" "[(''phone'', JStr ''+20 100'')]", THEN conjunct2, rule_format]
  from a b have r1: "bulk_handler always_resolves (Some 120) (JObj [(''items'', JStr ''abc'')]) ()
         = (Response 200 (BodyResults []), [], ())"
    by (intro inst1 conjI)
  from c have r2: "bulk_handler always_resolves (Some 120) (JObj [(''phone'', JStr ''+20 100'')]) ()
         = (Response 200 (BodyResults []), [], ())"
    by (rule inst2)
  from a b r1 c r2 show ?thesis by blast
qed

section \<open>Properties of the batch handler\<close>

lemma bulk_item_readable:
  "readable it \<Longrightarrow> \<exists>r effects w'. bulk_item sendMessage rate it w = Inr (r, effects, w')"
  by (auto simp: readable_def bulk_item_def split: sum.splits prod.splits option.splits)

lemma bulk_loop_total:
  "list_all readable items \<Longrightarrow>
     \<exists>rs tr' w'. bulk_loop sendMessage rate items acc tr w = (Inr rs, tr', w')"
proof (induction items arbitrary: acc tr w)
  case Nil
  then show ?case by simp
next
  case (Cons it items)
  then obtain r effects w1 where "bulk_item sendMessage rate it w = Inr (r, effects, w1)"
    using bulk_item_readable [of it sendMessage rate w] by auto
  with Cons show ?case by simp
qed

lemma bulk_item_entry:
  "bulk_item sendMessage rate it w = Inr (r, effects, w') \<Longrightarrow> entry_for it r"
  by (auto simp: bulk_item_def entry_for_def
      split: sum.splits prod.splits option.splits if_splits)

lemma bulk_loop_entries:
  "bulk_loop sendMessage rate items acc tr w = (Inr rs, tr', w') \<Longrightarrow>
     \<exists>new. rs = acc @ new \<and> list_all2 entry_for items new"
proof (induction items arbitrary: acc tr w)
  case Nil
  then show ?case by simp
next
  case (Cons it items)
  from Cons.prems obtain r effects w1 where
    step: "bulk_item sendMessage rate it w = Inr (r, effects, w1)"
    and rest: "bulk_loop sendMessage rate items (acc @ [r]) (tr @ effects) w1 = (Inr rs, tr', w')"
    by (auto split: sum.splits prod.splits)
  from Cons.IH [OF rest] obtain new where
    "rs = (acc @ [r]) @ new" "list_all2 entry_for items new"
    by blast
  with bulk_item_entry [OF step]
  have "rs = acc @ (r # new) \<and> list_all2 entry_for (it # items) (r # new)"
    by simp
  then show ?case by blast
qed

lemma paced_append: "paced rate a \<Longrightarrow> paced rate b \<Longrightarrow> paced rate (a @ b)"
  by (induction rate a rule: paced.induct)
     (auto split: option.splits list.splits effect.splits if_splits)

lemma bulk_item_paced:
  "bulk_item sendMessage rate it w = Inr (r, effects, w') \<Longrightarrow> paced rate effects"
  by (auto simp: bulk_item_def rate_delay_def
      split: sum.splits prod.splits option.splits if_splits)

lemma bulk_loop_paced:
  "bulk_loop sendMessage rate items acc tr w = (res, tr', w') \<Longrightarrow>
     \<exists>new. tr' = tr @ new \<and> paced rate new"
proof (induction items arbitrary: acc tr w)
  case Nil
  then show ?case by simp
next
  case (Cons it items)
  show ?case
  proof (cases "bulk_item sendMessage rate it w")
    case (Inl e)
    with Cons.prems show ?thesis by simp
  next
    case (Inr x)
    then obtain r effects w1 where
      step: "bulk_item sendMessage rate it w = Inr (r, effects, w1)" by (cases x) auto
    with Cons.prems have
      rest: "bulk_loop sendMessage rate items (acc @ [r]) (tr @ effects) w1 = (res, tr', w')"
      by simp
    from Cons.IH [OF rest] obtain new where "tr' = (tr @ effects) @ new" "paced rate new"
      by blast
    with bulk_item_paced [OF step]
    have "tr' = tr @ (effects @ new) \<and> paced rate (effects @ new)"
      by (simp add: paced_append)
    then show ?thesis by blast
  qed
qed

lemma sent_append: "sent (a @ b) = sent a @ sent b"
  by (induction a rule: sent.induct) auto

lemma sent_rate_delay: "sent (rate_delay rate) = []"
  by (simp add: rate_delay_def split: option.splits)

lemma bulk_item_sent:
  "bulk_item sendMessage rate it w = Inr (r, effects, w') \<Longrightarrow>
     sent effects = (case request_of it of None \<Rightarrow> [] | Some x \<Rightarrow> [x])"
  by (auto simp: bulk_item_def request_of_def sent_rate_delay
      split: sum.splits prod.splits option.splits if_splits)

lemma bulk_loop_sent:
  "bulk_loop sendMessage rate items acc tr w = (Inr rs, tr', w') \<Longrightarrow>
     sent tr' = sent tr @ List.map_filter request_of items"
proof (induction items arbitrary: acc tr w)
  case Nil
  then show ?case by (simp add: List.map_filter_simps)
next
  case (Cons it items)
  from Cons.prems obtain r effects w1 where
    step: "bulk_item sendMessage rate it w = Inr (r, effects, w1)"
    and rest: "bulk_loop sendMessage rate items (acc @ [r]) (tr @ effects) w1 = (Inr rs, tr', w')"
    by (auto split: sum.splits prod.splits)
  from Cons.IH [OF rest] bulk_item_sent [OF step] show ?case
    by (simp add: sent_append List.map_filter_simps split: option.splits)
qed

lemma bulk_handler_200:
  "getProp req_body ''items'' = Inr (JArr items) \<Longrightarrow>
     bulk_handler sendMessage rate req_body w = (Response 200 (BodyResults results), trace, w')
       \<longleftrightarrow> bulk_loop sendMessage rate items [] [] w = (Inr results, trace, w')"
  by (auto simp: bulk_handler_def array_or_empty_def split: sum.splits prod.splits)

lemma bulk_handler_trace:
  "getProp req_body ''items'' = Inr v \<Longrightarrow>
     fst (snd (bulk_handler sendMessage rate req_body w))
       = fst (snd (bulk_loop sendMessage rate (array_or_empty v) [] [] w))"
  by (auto simp: bulk_handler_def split: sum.splits prod.splits)

lemma bulk_handler_status:
  "getProp req_body ''items'' = Inr v \<Longrightarrow>
     status (fst (bulk_handler sendMessage rate req_body w)) = 200 \<Longrightarrow>
     \<exists>rs. fst (bulk_loop sendMessage rate (array_or_empty v) [] [] w) = Inr rs"
  by (auto simp: bulk_handler_def split: sum.splits prod.splits)

lemma item_1a_fields: "read_fields item_1a = Inr (JStr ''1'', ''1'', ''a'')"
  by (simp add: item_1a_def read_fields_def getProp_def normPhone_def message_text_def
      is_digit_def startsWith_def)

lemma item_2b_fields:
  "read_fields (JObj [(''phone'', JStr ''2''), (''message'', JStr ''b'')])
     = Inr (JStr ''2'', ''2'', ''b'')"
  by (simp add: read_fields_def getProp_def normPhone_def message_text_def
      is_digit_def startsWith_def)

lemma item_empty_phone_fields:
  "read_fields (JObj [(''phone'', JStr []), (''message'', JStr ''b'')])
     = Inr (JStr [], [], ''b'')"
  by (simp add: read_fields_def getProp_def normPhone_def message_text_def)

lemma item_formatted_bad_fields:
  "read_fields (JObj [(''phone'', JStr ''+20 (100)''), (''message'', JStr [])])
     = Inr (JStr ''+20 (100)'', ''20100'', [])"
  by (simp add: read_fields_def getProp_def normPhone_def message_text_def
      is_digit_def startsWith_def)

lemma item_formatted_fields:
  "read_fields (JObj [(''phone'', JStr ''+20 (100)''), (''message'', JStr ''hi'')])
     = Inr (JStr ''+20 (100)'', ''20100'', ''hi'')"
  by (simp add: read_fields_def getProp_def normPhone_def message_text_def
      is_digit_def startsWith_def)

lemma null_fields: "read_fields JNull = Inl TypeError"
  by (simp add: read_fields_def getProp_def)

lemma batch_spec_example_items:
  "getProp batch_spec_example ''items''
     = Inr (JArr [item_1a, JObj [(''phone'', JStr []), (''message'', JStr ''b'')]])"
  by (simp add: batch_spec_example_def getProp_def)

lemma batch_two_items:
  "getProp batch_two ''items''
     = Inr (JArr [item_1a, JObj [(''phone'', JStr ''2''), (''message'', JStr ''b'')]])"
  by (simp add: batch_two_def getProp_def)

lemma batch_formatted_items:
  "getProp batch_formatted ''items''
     = Inr (JArr [JObj [(''phone'', JStr ''+20 (100)''), (''message'', JStr [])],
                  JObj [(''phone'', JStr ''+20 (100)''), (''message'', JStr ''hi'')]])"
  by (simp add: batch_formatted_def getProp_def)

lemma batch_two_rejected:
  "bulk_handler always_rejects (Some 120) batch_two ()
     = (Response 200 (BodyResults [Result (JStr ''1'') False (Some ''not ready''),
                                   Result (JStr ''2'') False (Some ''not ready'')]),
        [Send ''1@c.us'' ''a'' (Some ''not ready''), Send ''2@c.us'' ''b'' (Some ''not ready'')],
        ())"
  by (simp add: bulk_handler_def batch_two_items array_or_empty_def bulk_item_def
      item_1a_fields item_2b_fields always_rejects_def)

lemma batch_two_resolved:
  "bulk_handler always_resolves (Some 120) batch_two ()
     = (Response 200 (BodyResults [Result (JStr ''1'') True None, Result (JStr ''2'') True None]),
        [Send ''1@c.us'' ''a'' None, Delay 120, Send ''2@c.us'' ''b'' None, Delay 120],
        ())"
  by (simp add: bulk_handler_def batch_two_items array_or_empty_def bulk_item_def
      item_1a_fields item_2b_fields always_resolves_def rate_delay_def)

lemma batch_formatted_rejected:
  "bulk_handler always_rejects (Some 120) batch_formatted ()
     = (Response 200 (BodyResults [Result (JStr ''+20 (100)'') False (Some ''bad item''),
                                   Result (JStr ''20100'') False (Some ''not ready'')]),
        [Send ''20100@c.us'' ''hi'' (Some ''not ready'')],
        ())"
  by (simp add: bulk_handler_def batch_formatted_items array_or_empty_def bulk_item_def
      item_formatted_bad_fields item_formatted_fields always_rejects_def)

text \<open>
  C1, as the code has it. The trace of a batch is paced: each send that resolved is
  followed at once by a wait of \<^verbatim>\<open>RATE_DELAY_MS\<close> when that is a positive number, and
  there is no wait anywhere else, so none after a send that was rejected. When the batch is
  answered with 200, the sends made are those the items ask for, one after the other in
  the order of the items, a bad item asking for none.
\<close>

theorem bulk_handler_pacing:
  "paced rate (fst (snd (bulk_handler sendMessage rate req_body w)))
   \<and> (getProp req_body ''items'' = Inr (JArr items)
        \<and> status (fst (bulk_handler sendMessage rate req_body w)) = 200
      \<longrightarrow> sent (fst (snd (bulk_handler sendMessage rate req_body w)))
            = List.map_filter request_of items)"
proof -
  have p: "paced rate (fst (snd (bulk_handler sendMessage rate req_body w)))"
  proof (cases "getProp req_body ''items''")
    case (Inl e)
    then show ?thesis by (simp add: bulk_handler_def)
  next
    case (Inr v)
    obtain res tr' w' where
      run: "bulk_loop sendMessage rate (array_or_empty v) [] [] w = (res, tr', w')"
      by (cases "bulk_loop sendMessage rate (array_or_empty v) [] [] w") auto
    from bulk_loop_paced [OF run] have "paced rate tr'" by simp
    with run show ?thesis by (simp add: bulk_handler_trace [OF Inr])
  qed
  have s: "sent (fst (snd (bulk_handler sendMessage rate req_body w)))
             = List.map_filter request_of items"
    if items: "getProp req_body ''items'' = Inr (JArr items)"
      and ok: "status (fst (bulk_handler sendMessage rate req_body w)) = 200"
  proof -
    from bulk_handler_status [OF items ok] obtain rs where
      "fst (bulk_loop sendMessage rate items [] [] w) = Inr rs"
      by (auto simp: array_or_empty_def)
    then obtain tr' w' where
      run: "bulk_loop sendMessage rate items [] [] w = (Inr rs, tr', w')"
      by (cases "bulk_loop sendMessage rate items [] [] w") auto
    from bulk_loop_sent [OF run] have "sent tr' = List.map_filter request_of items" by simp
    with run show ?thesis
      by (simp add: bulk_handler_trace [OF items] array_or_empty_def)
  qed
  from p s show ?thesis by blast
qed

theorem bulk_handler_pacing_witness:
  "getProp batch_two ''items''
     = Inr (JArr [item_1a, JObj [(''phone'', JStr ''2''), (''message'', JStr ''b'')]])
   \<and> status (fst (bulk_handler always_resolves (Some 120) batch_two ())) = 200
   \<and> paced (Some 120) (fst (snd (bulk_handler always_resolves (Some 120) batch_two ())))
   \<and> sent (fst (snd (bulk_handler always_resolves (Some 120) batch_two ())))
       = [(''1@c.us'', ''a''), (''2@c.us'', ''b'')]"
proof -
  note inst = bulk_handler_pacing [of "Some 120" always_resolves batch_two "()"
      "[item_1a, JObj [(''phone'', JStr ''2''), (''message'', JStr ''b'')]]"]
  have ok: "status (fst (bulk_handler always_resolves (Some 120) batch_two ())) = 200"
    by (simp add: batch_two_resolved)
  have asked: "List.map_filter request_of
                 [item_1a, JObj [(''phone'', JStr ''2''), (''message'', JStr ''b'')]]
               = [(''1@c.us'', ''a''), (''2@c.us'', ''b'')]"
    by (simp add: List.map_filter_simps request_of_def item_1a_fields item_2b_fields)
  from inst have p: "paced (Some 120) (fst (snd (bulk_handler always_resolves (Some 120) batch_two ())))"
    by (rule conjunct1)
  from inst batch_two_items ok
  have "sent (fst (snd (bulk_handler always_resolves (Some 120) batch_two ())))
          = List.map_filter request_of
              [item_1a, JObj [(''phone'', JStr ''2''), (''message'', JStr ''b'')]]"
    by blast
  then have s: "sent (fst (snd (bulk_handler always_resolves (Some 120) batch_two ())))
          = [(''1@c.us'', ''a''), (''2@c.us'', ''b'')]"
    using asked by (rule trans)
  from batch_two_items ok p s show ?thesis by blast
qed

text \<open>
  With a client that rejects every send and a delay of 120 ms configured, the second item
  is sent right after the first send failed: the trace holds no wait at all.
\<close>

theorem bulk_handler_no_delay_after_failure:
  "fst (snd (bulk_handler always_rejects (Some 120) batch_two ()))
     = [Send ''1@c.us'' ''a'' (Some ''not ready''), Send ''2@c.us'' ''b'' (Some ''not ready'')]
   \<and> \<not> delay_after_each_send 120 (fst (snd (bulk_handler always_rejects (Some 120) batch_two ())))"
  by (simp add: batch_two_rejected)

text \<open>
  C5, as the code has it. For an items array whose every item is readable (the item is
  not \<^verbatim>\<open>null\<close>, and its phone and message convert to text without throwing), the answer
  is 200 with a results array of the length of the items, whose entries are those of the
  items in their order, whatever the outcome of each send; the entry of an item whose
  normalised phone or whose message is empty is \<^verbatim>\<open>ok:false\<close> with the error
  \<^verbatim>\<open>bad item\<close>. The batch of the specification's example gets two entries, the second
  one \<^verbatim>\<open>ok:false\<close>, with every client.
\<close>

theorem bulk_handler_results:
  assumes "getProp req_body ''items'' = Inr (JArr items)"
    and "list_all readable items"
  shows "\<exists>results trace w'.
           bulk_handler sendMessage rate req_body w
             = (Response 200 (BodyResults results), trace, w')
         \<and> length results = length items
         \<and> list_all2 entry_for items results
         \<and> (\<forall>i < length items. request_of (items ! i) = None
              \<longrightarrow> \<not> r_ok (results ! i) \<and> r_error (results ! i) = Some ''bad item'')
         \<and> (\<exists>first trace' w''.
               bulk_handler sendMessage rate batch_spec_example w
                 = (Response 200 (BodyResults [first, Result (JStr []) False (Some ''bad item'')]),
                    trace', w''))"
proof -
  have example: "\<exists>first trace' w''.
               bulk_handler sendMessage rate batch_spec_example w
                 = (Response 200 (BodyResults [first, Result (JStr []) False (Some ''bad item'')]),
                    trace', w'')"
  proof -
    obtain outcome w1 where "sendMessage w ''1@c.us'' ''a'' = (outcome, w1)"
      by (cases "sendMessage w ''1@c.us'' ''a''") auto
    then show ?thesis
      by (cases outcome)
         (simp_all add: bulk_handler_def batch_spec_example_items array_or_empty_def
            bulk_item_def item_1a_fields item_empty_phone_fields)
  qed
  from bulk_loop_total [OF assms(2), of sendMessage rate "[]" "[]" w]
  obtain results trace w' where
    run: "bulk_loop sendMessage rate items [] [] w = (Inr results, trace, w')"
    by blast
  from bulk_loop_entries [OF run] have rel: "list_all2 entry_for items results"
    by simp
  then have len: "length results = length items"
    by (simp add: list_all2_lengthD)
  have bad: "\<not> r_ok (results ! i) \<and> r_error (results ! i) = Some ''bad item''"
    if "i < length items" "request_of (items ! i) = None" for i
  proof -
    from rel that(1) have "entry_for (items ! i) (results ! i)"
      by (simp add: list_all2_nthD)
    with that(2) show ?thesis
      by (auto simp: entry_for_def request_of_def split: sum.splits prod.splits if_splits)
  qed
  from run have "bulk_handler sendMessage rate req_body w
                   = (Response 200 (BodyResults results), trace, w')"
    by (simp add: bulk_handler_200 [OF assms(1)])
  with len rel bad example show ?thesis by blast
qed

theorem bulk_handler_results_witness:
  "getProp batch_spec_example ''items''
     = Inr (JArr [item_1a, JObj [(''phone'', JStr []), (''message'', JStr ''b'')]])
   \<and> list_all readable [item_1a, JObj [(''phone'', JStr []), (''message'', JStr ''b'')]]
   \<and> (\<exists>results trace w'.
         bulk_handler always_rejects (Some 120) batch_spec_example ()
           = (Response 200 (BodyResults results), trace, w')
       \<and> length results = 2
       \<and> \<not> r_ok (results ! 1))"
proof -
  let ?items = "[item_1a, JObj [(''phone'', JStr []), (''message'', JStr ''b'')]]"
  have rd: "list_all readable ?items"
    by (simp add: readable_def item_1a_fields item_empty_phone_fields)
  have none: "request_of (?items ! 1) = None"
    by (simp add: request_of_def item_empty_phone_fields)
  from bulk_handler_results [OF batch_spec_example_items rd, of always_rejects "Some 120" "()"]
  obtain results trace w' where
    run: "bulk_handler always_rejects (Some 120) batch_spec_example ()
            = (Response 200 (BodyResults results), trace, w')"
    and len: "length results = length ?items"
    and bad: "\<forall>i < length ?items. request_of (?items ! i) = None
              \<longrightarrow> \<not> r_ok (results ! i) \<and> r_error (results ! i) = Some ''bad item''"
    by blast
  from len have l2: "length results = 2" by simp
  have "(1::nat) < length ?items" by simp
  with bad none have "\<not> r_ok (results ! 1)" by blast
  with run l2 batch_spec_example_items rd show ?thesis by blast
qed

text \<open>
  A batch whose second item is \<^verbatim>\<open>null\<close>: the first message is sent, reading the second
  item throws, and the answer is 500 with no results array.
\<close>

theorem bulk_handler_null_item:
  "bulk_handler always_resolves (Some 120) batch_with_null ()
     = (Response 500 (BodyThrown TypeError), [Send ''1@c.us'' ''a'' None, Delay 120], ())"
  by (simp add: bulk_handler_def batch_with_null_def getProp_def [of "JObj _"]
      array_or_empty_def bulk_item_def item_1a_fields null_fields always_resolves_def
      rate_delay_def)

text \<open>
  C10. In a results array the batch handler returns, the entry of an item holds the phone
  exactly as the caller sent it when the item is rejected as bad (its normalised phone or
  its message is empty), and the normalised phone, a text of digits only, when a send was
  attempted for the item, whether it resolved or was rejected.
\<close>

theorem bulk_handler_result_phone:
  assumes "getProp req_body ''items'' = Inr (JArr items)"
    and "bulk_handler sendMessage rate req_body w
           = (Response 200 (BodyResults results), trace, w')"
    and "i < length items"
  shows "\<exists>raw phone message.
           read_fields (items ! i) = Inr (raw, phone, message)
         \<and> getProp (items ! i) ''phone'' = Inr raw
         \<and> normPhone raw = Inr phone
         \<and> (if phone = [] \<or> message = []
            then r_phone (results ! i) = raw \<and> \<not> r_ok (results ! i)
            else r_phone (results ! i) = JStr phone \<and> list_all is_digit phone)"
proof -
  from assms(2) have run: "bulk_loop sendMessage rate items [] [] w = (Inr results, trace, w')"
    by (simp add: bulk_handler_200 [OF assms(1)])
  from bulk_loop_entries [OF run] have "list_all2 entry_for items results"
    by simp
  with assms(3) have e: "entry_for (items ! i) (results ! i)"
    by (simp add: list_all2_nthD)
  then obtain raw phone message where
    rf: "read_fields (items ! i) = Inr (raw, phone, message)"
    by (auto simp: entry_for_def split: sum.splits)
  then have g: "getProp (items ! i) ''phone'' = Inr raw" and n: "normPhone raw = Inr phone"
    by (simp_all add: read_fields_Inr)
  from n have d: "list_all is_digit phone"
    by (rule normPhone_digits)
  from e rf have "if phone = [] \<or> message = []
            then r_phone (results ! i) = raw \<and> \<not> r_ok (results ! i)
            else r_phone (results ! i) = JStr phone"
    by (auto simp: entry_for_def)
  with rf g n d show ?thesis by auto
qed

theorem bulk_handler_result_phone_witness:
  "getProp batch_formatted ''items''
     = Inr (JArr [JObj [(''phone'', JStr ''+20 (100)''), (''message'', JStr [])],
                  JObj [(''phone'', JStr ''+20 (100)''), (''message'', JStr ''hi'')]])
   \<and> bulk_handler always_rejects (Some 120) batch_formatted ()
     = (Response 200 (BodyResults [Result (JStr ''+20 (100)'') False (Some ''bad item''),
                                   Result (JStr ''20100'') False (Some ''not ready'')]),
        [Send ''20100@c.us'' ''hi'' (Some ''not ready'')],
        ())
   \<and> (\<exists>raw phone message.
         read_fields (JObj [(''phone'', JStr ''+20 (100)''), (''message'', JStr ''hi'')])
           = Inr (raw, phone, message)
       \<and> phone = ''20100'' \<and> list_all is_digit phone)"
proof -
  let ?items = "[JObj [(''phone'', JStr ''+20 (100)''), (''message'', JStr [])],
                 JObj [(''phone'', JStr ''+20 (100)''), (''message'', JStr ''hi'')]]"
  have i: "(1::nat) < length ?items" by simp
  from bulk_handler_result_phone [OF batch_formatted_items batch_formatted_rejected i]
  obtain raw phone message where
    rf: "read_fields (?items ! 1) = Inr (raw, phone, message)"
    and ph: "if phone = [] \<or> message = []
             then r_phone ([Result (JStr ''+20 (100)'') False (Some ''bad item''),
                            Result (JStr ''20100'') False (Some ''not ready'')] ! 1) = raw
                  \<and> \<not> r_ok ([Result (JStr ''+20 (100)'') False (Some ''bad item''),
                            Result (JStr ''20100'') False (Some ''not ready'')] ! 1)
             else r_phone ([Result (JStr ''+20 (100)'') False (Some ''bad item''),
                            Result (JStr ''20100'') False (Some ''not ready'')] ! 1) = JStr phone
                  \<and> list_all is_digit phone"
    by blast
  from rf have vals: "phone = ''20100''" "message = ''hi''"
    by (simp_all add: item_formatted_fields)
  with ph have "list_all is_digit phone" by simp
  with rf vals have "\<exists>raw phone message.
         read_fields (JObj [(''phone'', JStr ''+20 (100)''), (''message'', JStr ''hi'')])
           = Inr (raw, phone, message)
       \<and> phone = ''20100'' \<and> list_all is_digit phone"
    by simp
  with batch_formatted_items batch_formatted_rejected show ?thesis by blast
qed

end
